theory Spec2Isabelle
  imports Main "HOL-Library.Multiset"
begin

section \<open>Data model of the table module\<close>

text \<open>
  The embedding follows the table module of kepler.gl (class \<open>KeplerTable\<close> and the
  exported helpers \<open>findPointFieldPairs\<close>, \<open>sortDatasetByColumn\<close>,
  \<open>pinTableColumns\<close>, \<open>copyTable\<close>, \<open>copyTableAndUpdate\<close>) and
  \<open>getScaleFunctor\<close> of the CPU aggregator.

  A cell of the data container is any JavaScript value. The operations modelled here only
  tell \<open>null\<close> and \<open>undefined\<close> from the other values and compare two such
  values of one column, so a cell is \<open>null\<close>, \<open>undefined\<close> or a value of a
  linearly ordered type (numbers without NaN, or strings).
\<close>

datatype 'a cell = Null | Undefined | Val 'a

text \<open>
  \<open>DataContainerInterface\<close> is declared in the utils package, which is missing; the
  table reads a container through \<open>numRows()\<close>, \<open>valueAt(row, column)\<close> and
  \<open>getPlainIndex()\<close>. A container is the record of its row count and its value
  accessor. Its optional method \<open>update\<close> is an argument of the table's
  \<open>update\<close>.
\<close>

record 'a DataContainer =
  numRows :: nat
  valueAt :: "nat \<Rightarrow> nat \<Rightarrow> 'a cell"

text \<open>
  Modelled from the spec: \<open>getPlainIndex\<close> of the missing data container "produces
  \<open>[0..numRows-1]\<close>".
\<close>

definition getPlainIndex :: "'a DataContainer \<Rightarrow> nat list" where
  "getPlainIndex dc = [0..<numRows dc]"

datatype DataForm = ROWS_ARRAY | COLS_ARRAY

text \<open>A field as it comes in (\<open>ProtoDataset['data'].fields\<close>): every property but the name is optional.\<close>

record ProtoField =
  pname :: string
  ptype :: "string option"
  pformat :: "string option"
  pdisplayName :: "string option"
  panalyzerType :: "string option"

text \<open>
  A field of the table. The bound \<open>valueAccessor\<close> closure of the source is determined by
  \<open>type\<close>, \<open>fieldIdx\<close>, \<open>format\<close> and the data container and is not stored.
\<close>

record Field =
  name :: string
  type_fld :: "string option"
  format :: string
  displayName :: string
  analyzerType :: string
  fieldIdx :: nat
  id_fld :: string

record 'a ProtoData =
  pfields :: "ProtoField list"
  prows :: "'a cell list list option"
  pcols :: "'a cell list list option"

text \<open>A filter, owned by the reducer layer; the table reads \<open>id\<close> and \<open>gpu\<close>.\<close>

record 'v Filter =
  id_flt :: string
  dataId :: "string list"
  name_flt :: "string list"
  type_flt :: string
  value_flt :: 'v
  gpu :: bool
  fixedDomain :: bool
  view_flt :: string

text \<open>The classification of the active filters into evaluation buckets.\<close>

record 'v FilterRecord =
  dynamicDomain :: "'v Filter list"
  cpu :: "'v Filter list"
  gpu_bucket :: "'v Filter list"

text \<open>Which buckets changed since the previous classification.\<close>

record FilterChanged =
  dynamicDomain_changed :: bool
  cpu_changed :: bool
  gpu_changed :: bool

record FilterDatasetOpt =
  cpuOnly :: "bool option"
  ignoreDomain :: "bool option"

record FilterResult =
  filteredIndexForDomain_res :: "nat list option"
  filteredIndex_res :: "nat list option"

record FieldPairEntry =
  fieldIdx_pair :: nat
  value_pair :: string

record PointPair =
  lat :: FieldPairEntry
  lng :: FieldPairEntry
  altitude :: "FieldPairEntry option"

record FieldPair =
  defaultName :: string
  pair :: PointPair
  suffix :: "string \<times> string"

text \<open>
  The value of \<open>sortBy\<close> in \<open>sortDatasetByColumn\<close>, read from the plain object
  \<open>SORT_ORDER\<close>: one of its own values (a mode name), or, for a key that names a member
  of \<open>Object.prototype\<close>, that inherited member (a function or an object, truthy).
\<close>

datatype sortBy_value = SortMode string | InheritedMember string

text \<open>
  The class \<open>KeplerTable\<close>. \<open>dataContainer\<close> is a reference to the container
  object, which a copy of the table shares. An optional property is an \<open>option\<close>;
  \<open>sortOrder\<close> is absent (\<open>None\<close>), \<open>null\<close> (\<open>Some None\<close>) or an
  array. \<open>'g\<close> is the compiled GPU filter descriptor. The free-form \<open>metadata\<close>
  and \<open>getFileProcessor\<close> are read by no operation and left out.
\<close>

record ('v, 'g) KeplerTable =
  id_tbl :: string
  type_tbl :: string
  label :: string
  color :: "nat list"
  fields_tbl :: "Field list"
  dataContainer :: nat
  allIndexes :: "nat list"
  filteredIndex :: "nat list"
  filteredIdxCPU :: "nat list option"
  filteredIndexForDomain :: "nat list"
  fieldPairs :: "FieldPair list"
  gpuFilter :: 'g
  filterRecord :: "'v FilterRecord option"
  filterRecordCPU :: "'v FilterRecord option"
  changedFilters :: "FilterChanged option"
  sortColumn :: "(string \<rightharpoonup> sortBy_value) option"
  sortOrder :: "nat list option option"
  pinnedColumns :: "string list option"
  supportedFilterTypes :: "string list option"
  disableDataOperation :: bool

text \<open>
  Tables are objects that methods mutate in place and that \<open>copyTable\<close> clones, so
  they live in a store addressed by references; \<open>next_ref\<close> is the first address not
  yet given to a table. Data containers are objects too (\<open>containers\<close>,
  \<open>next_dc\<close>). The arrays held by a table are never written in place (every
  operation assigns a property), so they are values. The world also holds what was written
  to the console and counts the row scans (calls of \<open>filterDataByFilterTypes\<close>).
\<close>

datatype log_entry = Error string | Warn string

record ('a, 'v, 'g) world =
  heap :: "nat \<Rightarrow> ('v, 'g) KeplerTable"
  next_ref :: nat
  containers :: "nat \<Rightarrow> 'a DataContainer"
  next_dc :: nat
  console :: "log_entry list"
  scans :: nat

definition assign :: "nat \<Rightarrow> (('v, 'g) KeplerTable \<Rightarrow> ('v, 'g) KeplerTable) \<Rightarrow>
    ('a, 'v, 'g) world \<Rightarrow> ('a, 'v, 'g) world" where
  "assign this f w = w\<lparr>heap := (heap w)(this := f (heap w this))\<rparr>"

text \<open>
  The helpers of the utils package that the table calls and that are pure functions of
  their arguments: they are parameters of the model.
\<close>

record ('a, 'v, 'g, 'l) helpers =
  createDataContainer :: "'a cell list list option \<Rightarrow> ProtoField list \<Rightarrow> DataForm \<Rightarrow> 'a DataContainer"
  getFilterRecord :: "string \<Rightarrow> 'v Filter list \<Rightarrow> FilterDatasetOpt \<Rightarrow> 'v FilterRecord"
  getGpuFilterProps :: "'v Filter list \<Rightarrow> string \<Rightarrow> Field list \<Rightarrow> 'g option \<Rightarrow> 'g"
  getDatasetFieldIndexForFilter :: "string \<Rightarrow> 'v Filter \<Rightarrow> int"
  getFilterFunction :: "Field option \<Rightarrow> string \<Rightarrow> 'v Filter \<Rightarrow> 'l list \<Rightarrow> 'a DataContainer \<Rightarrow> nat \<Rightarrow> bool"

section \<open>The filter orchestrator\<close>

text \<open>
  Modelled from the spec: \<open>diffFilters\<close> of the utils package is missing. It is the
  "semantic diff between the new classification and the previous one, flagging which
  buckets actually changed since the last call". A table that was never filtered has no
  previous classification; its buckets are read as empty.
\<close>

definition diffFilters :: "'v FilterRecord \<Rightarrow> 'v FilterRecord option \<Rightarrow> FilterChanged" where
  "diffFilters filterRecord' oldFilterRecord =
     (let old = (case oldFilterRecord of
                   None \<Rightarrow> \<lparr>dynamicDomain = [], cpu = [], gpu_bucket = []\<rparr>
                 | Some r \<Rightarrow> r)
      in \<lparr>dynamicDomain_changed = (dynamicDomain filterRecord' \<noteq> dynamicDomain old),
          cpu_changed = (cpu filterRecord' \<noteq> cpu old),
          gpu_changed = (gpu_bucket filterRecord' \<noteq> gpu_bucket old)\<rparr>)"

text \<open>
  Modelled from the spec: the call of a filter's predicate inside the missing
  \<open>filterDataByFilterTypes\<close>. The predicates were built "one per filter" and are
  looked up by the filter's id; every filter of a bucket comes from the filter list, and
  a missing predicate is read as the constant pass, as the spec has it for a filter that
  does not apply.
\<close>

definition filterFuncCaller :: "(string \<rightharpoonup> (nat \<Rightarrow> bool)) \<Rightarrow> nat \<Rightarrow> 'v Filter \<Rightarrow> bool" where
  "filterFuncCaller filterFuncs i f =
     (case filterFuncs (id_flt f) of None \<Rightarrow> True | Some p \<Rightarrow> p i)"

text \<open>
  Modelled from the spec: \<open>filterDataByFilterTypes\<close> of the utils package is missing. It
  performs "a single pass over allIndexes producing up to two result index lists
  concurrently: filteredIndex (rows passing all cpu predicates) and filteredIndexForDomain
  (rows passing all dynamicDomain predicates)"; a list is produced only for a bucket that
  was handed over (not \<open>null\<close>). It receives the data container, whose plain index is
  the pass.
\<close>

definition filterDataByFilterTypes :: "'v Filter list option \<Rightarrow> 'v Filter list option \<Rightarrow>
    (string \<rightharpoonup> (nat \<Rightarrow> bool)) \<Rightarrow> 'a DataContainer \<Rightarrow> FilterResult" where
  "filterDataByFilterTypes dynamicDomainFilters cpuFilters filterFuncs dc =
     \<lparr>filteredIndexForDomain_res =
        map_option (\<lambda>fs. filter (\<lambda>i. list_all (filterFuncCaller filterFuncs i) fs) (getPlainIndex dc))
          dynamicDomainFilters,
      filteredIndex_res =
        map_option (\<lambda>fs. filter (\<lambda>i. list_all (filterFuncCaller filterFuncs i) fs) (getPlainIndex dc))
          cpuFilters\<rparr>"

text \<open>\<open>opt || {}\<close>\<close>

definition empty_opt :: FilterDatasetOpt where
  "empty_opt = \<lparr>cpuOnly = None, ignoreDomain = None\<rparr>"

text \<open>
  The \<open>reduce\<close> that builds one predicate per filter, keyed by filter id (a later filter
  with the same id replaces an earlier one). \<open>fields[fieldIndex]\<close> is \<open>undefined\<close>
  out of range, which like \<open>null\<close> is no field.
\<close>

definition fieldForFilter :: "('a, 'v, 'g, 'l) helpers \<Rightarrow> string \<Rightarrow> Field list \<Rightarrow> 'v Filter \<Rightarrow> Field option" where
  "fieldForFilter H dataId_t flds f =
     (let fieldIndex = getDatasetFieldIndexForFilter H dataId_t f
      in if fieldIndex \<noteq> - 1 \<and> 0 \<le> fieldIndex \<and> nat fieldIndex < length flds
         then Some (flds ! nat fieldIndex) else None)"

definition buildFilterFuncs :: "('a, 'v, 'g, 'l) helpers \<Rightarrow> string \<Rightarrow> Field list \<Rightarrow> 'l list \<Rightarrow>
    'a DataContainer \<Rightarrow> 'v Filter list \<Rightarrow> (string \<rightharpoonup> (nat \<Rightarrow> bool))" where
  "buildFilterFuncs H dataId_t flds layers dc filters =
     foldl (\<lambda>acc f. acc(id_flt f \<mapsto>
              getFilterFunction H (fieldForFilter H dataId_t flds f) dataId_t f layers dc))
       Map.empty filters"

text \<open>
  \<open>KeplerTable.filterTable\<close>: mutates the receiver \<open>this\<close> and returns it.
\<close>

definition filterTable :: "('a, 'v, 'g, 'l) helpers \<Rightarrow> 'v Filter list \<Rightarrow> 'l list \<Rightarrow>
    FilterDatasetOpt option \<Rightarrow> nat \<Rightarrow> ('a, 'v, 'g) world \<Rightarrow> nat \<times> ('a, 'v, 'g) world" where
  "filterTable H filters layers opt this w =
     (let t = heap w this;
          dc = containers w (dataContainer t);
          dataId_t = id_tbl t;
          oldFilterRecord = filterRecord t;
          flds = fields_tbl t;
          filterRecord' = getFilterRecord H dataId_t filters
                            (case opt of None \<Rightarrow> empty_opt | Some opt' \<Rightarrow> opt');
          w1 = assign this (\<lambda>t. t\<lparr>filterRecord := Some filterRecord'\<rparr>) w;
          w2 = assign this (\<lambda>t. t\<lparr>gpuFilter :=
                 getGpuFilterProps H filters dataId_t flds (Some (gpuFilter t))\<rparr>) w1;
          changed = diffFilters filterRecord' oldFilterRecord;
          w3 = assign this (\<lambda>t. t\<lparr>changedFilters := Some changed\<rparr>) w2
      in if filters = [] then
           (this, assign this (\<lambda>t. t\<lparr>filteredIndex := allIndexes t,
                                      filteredIndexForDomain := allIndexes t\<rparr>) w3)
         else
           (let shouldCalDomain = dynamicDomain_changed changed;
                shouldCalIndex = cpu_changed changed;
                (filterResult, w4) =
                  (if shouldCalDomain \<or> shouldCalIndex then
                     (let dynamicDomainFilters =
                            (if shouldCalDomain then Some (dynamicDomain filterRecord') else None);
                          cpuFilters = (if shouldCalIndex then Some (cpu filterRecord') else None);
                          filterFuncs = buildFilterFuncs H dataId_t flds layers dc filters
                      in (filterDataByFilterTypes dynamicDomainFilters cpuFilters filterFuncs dc,
                          w3\<lparr>scans := Suc (scans w3)\<rparr>))
                   else (\<lparr>filteredIndexForDomain_res = None, filteredIndex_res = None\<rparr>, w3));
                w5 = assign this (\<lambda>t. t\<lparr>filteredIndex :=
                       (case filteredIndex_res filterResult of Some xs \<Rightarrow> xs
                        | None \<Rightarrow> filteredIndex t)\<rparr>) w4;
                w6 = assign this (\<lambda>t. t\<lparr>filteredIndexForDomain :=
                       (case filteredIndexForDomain_res filterResult of Some xs \<Rightarrow> xs
                        | None \<Rightarrow> filteredIndexForDomain t)\<rparr>) w5
            in (this, w6)))"

text \<open>
  \<open>copyTable\<close>: a new object with the prototype and the own properties of the original
  (\<open>Object.assign(Object.create(...), original)\<close>). The properties are copied one level
  deep only, so the copy refers to the same data container.
\<close>

definition copyTable :: "nat \<Rightarrow> ('a, 'v, 'g) world \<Rightarrow> nat \<times> ('a, 'v, 'g) world" where
  "copyTable original w =
     (next_ref w, w\<lparr>heap := (heap w)(next_ref w := heap w original),
                    next_ref := Suc (next_ref w)\<rparr>)"

text \<open>
  \<open>copyTableAndUpdate\<close>: the entries of \<open>options\<close> are property assignments,
  applied to the copy in order.
\<close>

definition copyTableAndUpdate :: "nat \<Rightarrow> (('v, 'g) KeplerTable \<Rightarrow> ('v, 'g) KeplerTable) list \<Rightarrow>
    ('a, 'v, 'g) world \<Rightarrow> nat \<times> ('a, 'v, 'g) world" where
  "copyTableAndUpdate original options w =
     (let (acc, w1) = copyTable original w
      in (acc, foldl (\<lambda>w' entry. assign acc entry w') w1 options))"

text \<open>The options of \<open>filterTableCPU\<close>: \<open>{cpuOnly: true, ignoreDomain: true}\<close>.\<close>

definition cpu_opt :: FilterDatasetOpt where
  "cpu_opt = \<lparr>cpuOnly = Some True, ignoreDomain = Some True\<rparr>"

text \<open>\<open>KeplerTable.filterTableCPU\<close>\<close>

definition filterTableCPU :: "('a, 'v, 'g, 'l) helpers \<Rightarrow> 'v Filter list \<Rightarrow> 'l list \<Rightarrow>
    nat \<Rightarrow> ('a, 'v, 'g) world \<Rightarrow> nat \<times> ('a, 'v, 'g) world" where
  "filterTableCPU H filters layers this w =
     (if filters = [] then
        (let w1 = assign this (\<lambda>t. t\<lparr>filteredIdxCPU := Some (allIndexes t)\<rparr>) w;
             w2 = assign this (\<lambda>t. t\<lparr>filterRecordCPU :=
                    Some (getFilterRecord H (id_tbl t) filters cpu_opt)\<rparr>) w1
         in (this, w2))
      else if find gpu filters = None then
        (let w1 = assign this (\<lambda>t. t\<lparr>filteredIdxCPU := Some (filteredIndex t)\<rparr>) w;
             w2 = assign this (\<lambda>t. t\<lparr>filterRecordCPU :=
                    Some (getFilterRecord H (id_tbl t) filters cpu_opt)\<rparr>) w1
         in (this, w2))
      else
        (let (copied, w1) = copyTable this w;
             w2 = assign copied (\<lambda>c. c\<lparr>filterRecord := filterRecordCPU (heap w1 this)\<rparr>) w1;
             w3 = assign copied (\<lambda>c. c\<lparr>filteredIndex :=
                    (case filteredIdxCPU (heap w2 this) of Some xs \<Rightarrow> xs | None \<Rightarrow> [])\<rparr>) w2;
             (filtered, w4) = filterTable H filters layers (Some cpu_opt) copied w3;
             w5 = assign this (\<lambda>t. t\<lparr>filteredIdxCPU := Some (filteredIndex (heap w4 filtered))\<rparr>) w4;
             w6 = assign this (\<lambda>t. t\<lparr>filterRecordCPU := filterRecord (heap w5 filtered)\<rparr>) w5
         in (this, w6)))"

section \<open>Ingestion\<close>

text \<open>
  \<open>KeplerTable.update\<close>. The container's method \<open>update\<close> is optional
  (\<open>this.dataContainer.update?.(...)\<close>); when present it changes the container object
  in place. It is the argument \<open>dc_update\<close>.
\<close>

definition update_table :: "('a cell list list option \<Rightarrow> 'a DataContainer \<Rightarrow> 'a DataContainer) option \<Rightarrow>
    'a ProtoData \<Rightarrow> nat \<Rightarrow> ('a, 'v, 'g) world \<Rightarrow> nat \<times> ('a, 'v, 'g) world" where
  "update_table dc_update data this w =
     (let dataContainerData = (case pcols data of Some cols \<Rightarrow> Some cols | None \<Rightarrow> prows data);
          r = dataContainer (heap w this);
          w1 = (case dc_update of
                  None \<Rightarrow> w
                | Some u \<Rightarrow> w\<lparr>containers := (containers w)(r := u dataContainerData (containers w r))\<rparr>);
          w2 = assign this (\<lambda>t. t\<lparr>allIndexes := getPlainIndex (containers w1 r)\<rparr>) w1;
          w3 = assign this (\<lambda>t. t\<lparr>filteredIndex := allIndexes t\<rparr>) w2;
          w4 = assign this (\<lambda>t. t\<lparr>filteredIndexForDomain := allIndexes t\<rparr>) w3
      in (this, w4))"

section \<open>Field-pair inference\<close>

text \<open>
  Modelled from the spec: the constants \<open>TRIP_POINT_FIELDS\<close> and
  \<open>ALTITUDE_FIELDS\<close> of the constants package are missing. They are the "configured
  suffix conventions (e.g., \<open>_lat\<close>/\<open>_lng\<close>, \<open>latitude\<close>/\<open>longitude\<close>)" in
  priority order and the "configured altitude-suffix candidates"; the values are those
  that the layer tests of the repository exercise.
\<close>

definition TRIP_POINT_FIELDS :: "(string \<times> string) list" where
  "TRIP_POINT_FIELDS =
     [(''lat'', ''lng''), (''lat'', ''lon''), (''lat'', ''long''), (''latitude'', ''longitude'')]"

definition ALTITUDE_FIELDS :: "string list" where
  "ALTITUDE_FIELDS = [''alt'', ''altitude'']"

text \<open>\<open>specialCharacterSet\<close>: the class \<open>[#_&@\.\-\ ]\<close>.\<close>

definition specialCharacterSet :: "char \<Rightarrow> bool" where
  "specialCharacterSet c = (c \<in> set ''#_&@.- '')"

text \<open>
  The regular expression \<open>(^|[#_&@\.\-\ ])sfx([#_&@\.\-\ ]|$)\<close>, for a suffix of letters.
  \<open>re_tail\<close> matches the suffix and the closing group at the head of a string (a
  special character is tried earlier than the end of the string) and gives the length matched.
  \<open>re_here\<close> matches the whole expression at one position: the alternative \<open>^\<close>
  first, which needs the position to be the start, then a special character.
  \<open>re_exec\<close> looks for the leftmost match and splits the string there into the part
  preceding the match, the match and the rest.
\<close>

definition re_tail :: "string \<Rightarrow> string \<Rightarrow> nat option" where
  "re_tail sfx r =
     (if take (length sfx) r = sfx then
        (case drop (length sfx) r of
           [] \<Rightarrow> Some (length sfx)
         | c # _ \<Rightarrow> if specialCharacterSet c then Some (Suc (length sfx)) else None)
      else None)"

definition re_here :: "string \<Rightarrow> bool \<Rightarrow> string \<Rightarrow> nat option" where
  "re_here sfx at_start r =
     (case (if at_start then re_tail sfx r else None) of
        Some n \<Rightarrow> Some n
      | None \<Rightarrow>
          (case r of
             [] \<Rightarrow> None
           | c # r' \<Rightarrow> if specialCharacterSet c then map_option Suc (re_tail sfx r') else None))"

fun re_exec_from :: "string \<Rightarrow> bool \<Rightarrow> string \<Rightarrow> string \<Rightarrow> (string \<times> string \<times> string) option" where
  "re_exec_from sfx at_start front [] =
     (case re_here sfx at_start [] of
        Some n \<Rightarrow> Some (front, [], [])
      | None \<Rightarrow> None)"
| "re_exec_from sfx at_start front (c # r) =
     (case re_here sfx at_start (c # r) of
        Some n \<Rightarrow> Some (front, take n (c # r), drop n (c # r))
      | None \<Rightarrow> re_exec_from sfx False (front @ [c]) r)"

definition re_exec :: "string \<Rightarrow> string \<Rightarrow> (string \<times> string \<times> string) option" where
  "re_exec sfx s = re_exec_from sfx True [] s"

text \<open>\<open>re.test(s)\<close>\<close>

definition re_test :: "string \<Rightarrow> string \<Rightarrow> bool" where
  "re_test sfx s = (re_exec sfx s \<noteq> None)"

text \<open>\<open>s.replace(re, f)\<close>: the expression is not global, so the first match is replaced.\<close>

definition re_replace :: "string \<Rightarrow> (string \<Rightarrow> string) \<Rightarrow> string \<Rightarrow> string" where
  "re_replace sfx f s =
     (case re_exec sfx s of
        None \<Rightarrow> s
      | Some (front, matched, rest) \<Rightarrow> front @ f matched @ rest)"

text \<open>
  \<open>s.replace(pat, rep)\<close> with a string pattern: the first occurrence is replaced (the
  replacements used contain no \<open>$\<close>).
\<close>

fun str_replace :: "string \<Rightarrow> string \<Rightarrow> string \<Rightarrow> string" where
  "str_replace pat rep [] = (if pat = [] then rep else [])"
| "str_replace pat rep (c # s) =
     (if take (length pat) (c # s) = pat then rep @ drop (length pat) (c # s)
      else c # str_replace pat rep s)"

text \<open>\<open>toLowerCase\<close> and \<open>trim\<close>, on ASCII strings.\<close>

definition lower_char :: "char \<Rightarrow> char" where
  "lower_char c =
     (if 65 \<le> (of_char c :: nat) \<and> (of_char c :: nat) \<le> 90 then char_of (of_char c + (32 :: nat)) else c)"

definition toLowerCase :: "string \<Rightarrow> string" where
  "toLowerCase s = map lower_char s"

definition white_space :: "char \<Rightarrow> bool" where
  "white_space c = ((of_char c :: nat) \<in> {9, 10, 11, 12, 13, 32})"

definition trim :: "string \<Rightarrow> string" where
  "trim s = rev (dropWhile white_space (rev (dropWhile white_space s)))"

text \<open>\<open>xs.findIndex(p)\<close>: the first index whose element satisfies \<open>p\<close>; \<open>None\<close> is \<open>-1\<close>.\<close>

fun findIndex :: "('x \<Rightarrow> bool) \<Rightarrow> 'x list \<Rightarrow> nat option" where
  "findIndex p [] = None"
| "findIndex p (x # xs) = (if p x then Some 0 else map_option Suc (findIndex p xs))"

text \<open>
  The loop \<open>ALTITUDE_FIELDS.some(...)\<close> of \<open>foundMatchingFields\<close>: it stops at the
  first candidate that is found and leaves \<open>altIdx\<close> at the last index computed.
\<close>

fun findAltitude :: "string \<Rightarrow> string \<Rightarrow> string list \<Rightarrow> string list \<Rightarrow> nat option" where
  "findAltitude sfx0 fieldName allNames [] = None"
| "findAltitude sfx0 fieldName allNames (alt # alts) =
     (case findIndex (\<lambda>d. d = re_replace sfx0 (\<lambda>m. str_replace sfx0 alt m) fieldName) allNames of
        Some i \<Rightarrow> Some i
      | None \<Rightarrow> findAltitude sfx0 fieldName allNames alts)"

definition foundMatchingFields :: "string \<times> string \<Rightarrow> string list \<Rightarrow> string \<Rightarrow> nat option \<times> nat option" where
  "foundMatchingFields suffixPair allNames fieldName =
     (let partnerIdx = findIndex
            (\<lambda>d. d = re_replace (fst suffixPair)
                        (\<lambda>m. str_replace (fst suffixPair) (snd suffixPair) m) fieldName) allNames;
          altIdx = (if partnerIdx \<noteq> None
                    then findAltitude (fst suffixPair) fieldName allNames ALTITUDE_FIELDS
                    else None)
      in (partnerIdx, altIdx))"

text \<open>
  The \<open>for\<close> loop over the suffix pairs for one field name: the first pair whose first
  suffix matches and whose partner exists makes the field pair; \<open>names\<close> are the names
  of the fields as given, \<open>allNames\<close> their lower-case forms.
\<close>

fun pairForField :: "string list \<Rightarrow> string list \<Rightarrow> string \<Rightarrow> nat \<Rightarrow> (string \<times> string) list \<Rightarrow> FieldPair option" where
  "pairForField names allNames fieldName idx [] = None"
| "pairForField names allNames fieldName idx (suffixPair # rest) =
     (if re_test (fst suffixPair) fieldName then
        (case foundMatchingFields suffixPair allNames fieldName of
           (Some partnerIdx, altIdx) \<Rightarrow>
             (let trimName = trim (re_replace (fst suffixPair) (\<lambda>m. []) fieldName)
              in Some \<lparr>defaultName = (if trimName = [] then ''point'' else trimName),
                       pair = \<lparr>lat = \<lparr>fieldIdx_pair = idx, value_pair = names ! idx\<rparr>,
                               lng = \<lparr>fieldIdx_pair = partnerIdx, value_pair = names ! partnerIdx\<rparr>,
                               altitude = (case altIdx of
                                             None \<Rightarrow> None
                                           | Some a \<Rightarrow> Some \<lparr>fieldIdx_pair = a, value_pair = names ! a\<rparr>)\<rparr>,
                       suffix = suffixPair\<rparr>)
         | (None, altIdx) \<Rightarrow> pairForField names allNames fieldName idx rest)
      else pairForField names allNames fieldName idx rest)"

text \<open>\<open>findPointFieldPairs\<close>: the \<open>reduce\<close> over the lower-case names with their indices.\<close>

definition findPointFieldPairs :: "Field list \<Rightarrow> FieldPair list" where
  "findPointFieldPairs flds =
     (let names = map name flds;
          allNames = map toLowerCase names
      in foldl (\<lambda>carry (fieldName, idx).
                  (case pairForField names allNames fieldName idx TRIP_POINT_FIELDS of
                     Some p \<Rightarrow> carry @ [p]
                   | None \<Rightarrow> carry))
           [] (zip allNames [0..<length allNames]))"

text \<open>
  \<open>KeplerTable.importData\<close>. The new container object gets the address \<open>next_dc\<close>.
  \<open>ALL_FIELD_TYPES.string\<close> is \<open>'string'\<close>; an empty string is falsy.
\<close>

definition or_else :: "string option \<Rightarrow> string \<Rightarrow> string" where
  "or_else a b = (case a of None \<Rightarrow> b | Some x \<Rightarrow> if x = [] then b else x)"

definition importField :: "ProtoField \<Rightarrow> nat \<Rightarrow> Field" where
  "importField f i =
     \<lparr>name = pname f, type_fld = ptype f, format = or_else (pformat f) [],
      displayName = or_else (pdisplayName f) (pname f),
      analyzerType = or_else (panalyzerType f) ''string'',
      fieldIdx = i, id_fld = pname f\<rparr>"

definition importData :: "('a, 'v, 'g, 'l) helpers \<Rightarrow> 'a ProtoData \<Rightarrow> nat \<Rightarrow>
    ('a, 'v, 'g) world \<Rightarrow> ('a, 'v, 'g) world" where
  "importData H data this w =
     (let dataContainerData = (case pcols data of Some cols \<Rightarrow> Some cols | None \<Rightarrow> prows data);
          inputDataFormat = (case pcols data of Some cols \<Rightarrow> COLS_ARRAY | None \<Rightarrow> ROWS_ARRAY);
          dc = createDataContainer H dataContainerData (pfields data) inputDataFormat;
          r = next_dc w;
          w0 = w\<lparr>containers := (containers w)(r := dc), next_dc := Suc r\<rparr>;
          flds = map (\<lambda>(f, i). importField f i) (zip (pfields data) [0..<length (pfields data)]);
          allIdx = getPlainIndex dc;
          w1 = assign this (\<lambda>t. t\<lparr>dataContainer := r\<rparr>) w0;
          w2 = assign this (\<lambda>t. t\<lparr>allIndexes := allIdx\<rparr>) w1;
          w3 = assign this (\<lambda>t. t\<lparr>filteredIndex := allIdx\<rparr>) w2;
          w4 = assign this (\<lambda>t. t\<lparr>filteredIndexForDomain := allIdx\<rparr>) w3;
          w5 = assign this (\<lambda>t. t\<lparr>fieldPairs := findPointFieldPairs flds\<rparr>) w4;
          w6 = assign this (\<lambda>t. t\<lparr>fields_tbl := flds\<rparr>) w5;
          w7 = assign this (\<lambda>t. t\<lparr>gpuFilter := getGpuFilterProps H [] (id_tbl t) flds None\<rparr>) w6
      in w7)"


section \<open>Sort and pin utilities\<close>

text \<open>
  Modelled from the spec: \<open>notNullorUndefined\<close> of the common-utils package is
  missing; it tells the "null/undefined values" from the others.
\<close>

definition notNullorUndefined :: "'a cell \<Rightarrow> bool" where
  "notNullorUndefined d = (d \<noteq> Undefined \<and> d \<noteq> Null)"

text \<open>
  \<open>ascending\<close> and \<open>descending\<close> of d3-array, as \<open>Array.prototype.sort\<close> reads
  them: on two values of the column they give \<open>-1\<close>, \<open>0\<close> or \<open>1\<close>; on \<open>null\<close> and
  \<open>undefined\<close> operands they give \<open>0\<close> or NaN, and the sort reads NaN as \<open>0\<close>.
\<close>

fun ascending :: "'a::linorder cell \<Rightarrow> 'a cell \<Rightarrow> int" where
  "ascending (Val a) (Val b) = (if a < b then - 1 else if a > b then 1 else 0)"
| "ascending a b = 0"

fun descending :: "'a::linorder cell \<Rightarrow> 'a cell \<Rightarrow> int" where
  "descending (Val a) (Val b) = (if b < a then - 1 else if b > a then 1 else 0)"
| "descending a b = 0"

text \<open>
  \<open>Array.prototype.sort\<close> with a comparator. The sort is stable; with a consistent
  comparator its result is the one stable sorted arrangement, which insertion from the
  right computes: an element goes in front of the first element it does not exceed.
\<close>

fun insert_cmp :: "('x \<Rightarrow> 'x \<Rightarrow> int) \<Rightarrow> 'x \<Rightarrow> 'x list \<Rightarrow> 'x list" where
  "insert_cmp cmp x [] = [x]"
| "insert_cmp cmp x (y # ys) = (if cmp x y \<le> 0 then x # y # ys else y # insert_cmp cmp x ys)"

definition array_sort :: "('x \<Rightarrow> 'x \<Rightarrow> int) \<Rightarrow> 'x list \<Rightarrow> 'x list" where
  "array_sort cmp xs = foldr (insert_cmp cmp) xs []"

text \<open>
  Modelled from the spec: the constant \<open>SORT_ORDER\<close> of the constants package is
  missing; it maps each of the "ascending/descending/unsort modes" to itself.
\<close>

definition SORT_ORDER :: "string \<rightharpoonup> string" where
  "SORT_ORDER = [''ASCENDING'' \<mapsto> ''ASCENDING'', ''DESCENDING'' \<mapsto> ''DESCENDING'',
                 ''UNSORT'' \<mapsto> ''UNSORT'']"

text \<open>
  The members that a plain object inherits from \<open>Object.prototype\<close>; a lookup
  \<open>SORT_ORDER[key]\<close> with one of these keys finds the inherited member.
\<close>

definition Object_prototype_members :: "string list" where
  "Object_prototype_members =
     [''constructor'', ''hasOwnProperty'', ''isPrototypeOf'', ''propertyIsEnumerable'',
      ''toLocaleString'', ''toString'', ''valueOf'', ''__proto__'', ''__defineGetter__'',
      ''__defineSetter__'', ''__lookupGetter__'', ''__lookupSetter__'']"

text \<open>
  \<open>SORT_ORDER[mode || ''] || SORT_ORDER.ASCENDING\<close>: the mode is optional; a key that
  is found nowhere gives \<open>ASCENDING\<close>, an inherited member is kept as it is.
\<close>

definition sortByMode :: "string option \<Rightarrow> sortBy_value" where
  "sortByMode mode =
     (let key = (case mode of None \<Rightarrow> [] | Some m \<Rightarrow> m)
      in case SORT_ORDER key of
           Some s \<Rightarrow> if s = [] then SortMode ''ASCENDING'' else SortMode s
         | None \<Rightarrow> if key \<in> set Object_prototype_members then InheritedMember key
                   else SortMode ''ASCENDING'')"

text \<open>The comparator of \<open>sortDatasetByColumn\<close>.\<close>

definition sortComparator :: "('a::linorder cell \<Rightarrow> 'a cell \<Rightarrow> int) \<Rightarrow> 'a DataContainer \<Rightarrow> nat \<Rightarrow>
    nat \<Rightarrow> nat \<Rightarrow> int" where
  "sortComparator sortFunction dc fieldIndex a b =
     (let value1 = valueAt dc a fieldIndex;
          value2 = valueAt dc b fieldIndex
      in if \<not> notNullorUndefined value1 \<and> notNullorUndefined value2 then 1
         else if notNullorUndefined value1 \<and> \<not> notNullorUndefined value2 then - 1
         else sortFunction value1 value2)"

text \<open>\<open>sortDatasetByColumn\<close>: mutates the dataset and returns it; \<open>mode\<close> is optional.\<close>

definition sortDatasetByColumn :: "nat \<Rightarrow> string \<Rightarrow> string option \<Rightarrow>
    ('a::linorder, 'v, 'g) world \<Rightarrow> nat \<times> ('a, 'v, 'g) world" where
  "sortDatasetByColumn dataset column mode w =
     (let t = heap w dataset;
          allIdx = allIndexes t;
          dc = containers w (dataContainer t)
      in case findIndex (\<lambda>f. name f = column) (fields_tbl t) of
           None \<Rightarrow> (dataset, w)
         | Some fieldIndex \<Rightarrow>
             (let sortBy = sortByMode mode
              in if sortBy = SortMode ''UNSORT'' then
                   (let w1 = assign dataset (\<lambda>t. t\<lparr>sortColumn := Some Map.empty\<rparr>) w;
                        w2 = assign dataset (\<lambda>t. t\<lparr>sortOrder := Some None\<rparr>) w1
                    in (dataset, w2))
                 else
                   (let sortFunction = (if sortBy = SortMode ''ASCENDING'' then ascending
                                        else descending);
                        sortOrder' = array_sort (sortComparator sortFunction dc fieldIndex) allIdx;
                        w1 = assign dataset (\<lambda>t. t\<lparr>sortColumn := Some [column \<mapsto> sortBy]\<rparr>) w;
                        w2 = assign dataset (\<lambda>t. t\<lparr>sortOrder := Some (Some sortOrder')\<rparr>) w1
                    in (dataset, w2))))"

text \<open>\<open>KeplerTable._assetField\<close> and \<open>KeplerTable.getColumnField\<close>\<close>

definition assetField :: "string \<Rightarrow> bool \<Rightarrow> nat \<Rightarrow> ('a, 'v, 'g) world \<Rightarrow> ('a, 'v, 'g) world" where
  "assetField fieldName condition this w =
     (if \<not> condition
      then w\<lparr>console := console w @
               [Error (fieldName @ '' doesnt exist in dataset '' @ id_tbl (heap w this))]\<rparr>
      else w)"

definition getColumnField :: "string \<Rightarrow> nat \<Rightarrow> ('a, 'v, 'g) world \<Rightarrow> Field option \<times> ('a, 'v, 'g) world" where
  "getColumnField columnName this w =
     (let field = find (\<lambda>fd. name fd = columnName) (fields_tbl (heap w this))
      in (field, assetField columnName (field \<noteq> None) this w))"

text \<open>\<open>pinTableColumns\<close>\<close>

definition pinTableColumns :: "nat \<Rightarrow> string \<Rightarrow> ('a, 'v, 'g) world \<Rightarrow> nat \<times> ('a, 'v, 'g) world" where
  "pinTableColumns dataset column w =
     (let (field, w1) = getColumnField column dataset w
      in case field of
           None \<Rightarrow> (dataset, w1)
         | Some fld \<Rightarrow>
             (let pinnedColumns' =
                    (case pinnedColumns (heap w1 dataset) of
                       Some pc \<Rightarrow> if name fld \<in> set pc then filter (\<lambda>co. co \<noteq> name fld) pc
                                  else pc @ [name fld]
                     | None \<Rightarrow> [] @ [name fld])
              in copyTableAndUpdate dataset [\<lambda>t. t\<lparr>pinnedColumns := Some pinnedColumns'\<rparr>] w1))"

section \<open>Scale domains\<close>

text \<open>
  The domain calculators of the utils package are parameters, as are the constants
  \<open>SCALE_TYPES\<close> (scale name to scale name) and \<open>SCALE_FUNC\<close> (scale name to scale
  constructor) of the constants package. A property that is absent or the empty string is
  falsy.
\<close>

record ('a, 'd) domainCalculators =
  getOrdinalDomain :: "'a DataContainer \<Rightarrow> Field \<Rightarrow> 'd"
  getQuantileDomain :: "nat list \<Rightarrow> 'a DataContainer \<Rightarrow> Field \<Rightarrow> 'd"
  getLogDomain :: "nat list \<Rightarrow> 'a DataContainer \<Rightarrow> Field \<Rightarrow> 'd"
  getLinearDomain :: "nat list \<Rightarrow> 'a DataContainer \<Rightarrow> Field \<Rightarrow> 'd"

definition truthy :: "string option \<Rightarrow> bool" where
  "truthy v = (case v of None \<Rightarrow> False | Some s \<Rightarrow> s \<noteq> [])"

text \<open>\<open>KeplerTable.getColumnLayerDomain\<close>; the result \<open>None\<close> is \<open>null\<close>.\<close>

definition getColumnLayerDomain :: "('a, 'd) domainCalculators \<Rightarrow> (string \<rightharpoonup> string) \<Rightarrow> Field \<Rightarrow>
    string \<Rightarrow> nat \<Rightarrow> ('a, 'v, 'g) world \<Rightarrow> 'd option \<times> ('a, 'v, 'g) world" where
  "getColumnLayerDomain C SCALE_TYPES field scaleType this w =
     (let dc = containers w (dataContainer (heap w this));
          filteredIndexForDomain' = filteredIndexForDomain (heap w this)
      in if \<not> truthy (SCALE_TYPES scaleType) then
           (None, w\<lparr>console := console w @
                      [Error (''scale type '' @ scaleType @ '' not supported'')]\<rparr>)
         else if Some scaleType = SCALE_TYPES ''ordinal''
                 \<or> Some scaleType = SCALE_TYPES ''customOrdinal''
                 \<or> Some scaleType = SCALE_TYPES ''point'' then
           (Some (getOrdinalDomain C dc field), w)
         else if Some scaleType = SCALE_TYPES ''quantile'' then
           (Some (getQuantileDomain C filteredIndexForDomain' dc field), w)
         else if Some scaleType = SCALE_TYPES ''log'' then
           (Some (getLogDomain C filteredIndexForDomain' dc field), w)
         else
           (Some (getLinearDomain C filteredIndexForDomain' dc field), w))"

text \<open>\<open>getScaleFunctor\<close> of the CPU aggregator; the result \<open>None\<close> is \<open>undefined\<close>.\<close>

definition getScaleFunctor :: "(string \<rightharpoonup> 'f) \<Rightarrow> string \<Rightarrow> ('a, 'v, 'g) world \<Rightarrow>
    'f option \<times> ('a, 'v, 'g) world" where
  "getScaleFunctor SCALE_FUNC scaleType w =
     (let w1 = (if scaleType = [] \<or> SCALE_FUNC scaleType = None
                then w\<lparr>console := console w @ [Warn (''Scale '' @ scaleType @ '' is not supported'')]\<rparr>
                else w)
      in (case SCALE_FUNC scaleType of
            Some f \<Rightarrow> (Some f, w1)
          | None \<Rightarrow> (SCALE_FUNC ''quantize'', w1)))"


section \<open>The invariant of the index views\<close>

text \<open>
  The data model's invariant on a table: \<open>allIndexes\<close> is the plain index of the
  table's data container, and the two index views are subsets of it in strictly ascending
  order. \<open>importData\<close> and \<open>update\<close> establish it for their receiver. It speaks
  of the container as it is now: a table loses it when the container it shares with a
  copy is grown by an \<open>update\<close> of that copy.
\<close>

definition index_view :: "nat list \<Rightarrow> nat list \<Rightarrow> bool" where
  "index_view allIdx xs = (set xs \<subseteq> set allIdx \<and> sorted_wrt (<) xs \<and> distinct xs)"

definition table_inv :: "('a, 'v, 'g) world \<Rightarrow> nat \<Rightarrow> bool" where
  "table_inv w this =
     (allIndexes (heap w this) = getPlainIndex (containers w (dataContainer (heap w this))) \<and>
      index_view (allIndexes (heap w this)) (filteredIndex (heap w this)) \<and>
      index_view (allIndexes (heap w this)) (filteredIndexForDomain (heap w this)))"

section \<open>Example data\<close>

text \<open>
  A table of three rows with one column, whose second cell is \<open>null\<close>, two range
  filters (one offloaded to the GPU), and simple instances of the helper functions: a
  filter passes the rows whose cell is at least the filter's value.
\<close>

definition ex_filter :: "nat Filter" where
  "ex_filter = \<lparr>id_flt = ''f1'', dataId = [''d''], name_flt = [''lat''], type_flt = ''range'',
     value_flt = 3, gpu = False, fixedDomain = False, view_flt = []\<rparr>"

definition ex_gpu_filter :: "nat Filter" where
  "ex_gpu_filter = \<lparr>id_flt = ''f2'', dataId = [''d''], name_flt = [''lat''], type_flt = ''range'',
     value_flt = 1, gpu = True, fixedDomain = False, view_flt = []\<rparr>"

definition ex_container :: "nat DataContainer" where
  "ex_container = \<lparr>numRows = 3,
     valueAt = (\<lambda>r c. if r = 0 then Val 5 else if r = 1 then Null else if r = 2 then Val 2 else Undefined)\<rparr>"

definition ex_field :: Field where
  "ex_field = \<lparr>name = ''lat'', type_fld = Some ''integer'', format = [], displayName = ''lat'',
     analyzerType = ''INT'', fieldIdx = 0, id_fld = ''lat''\<rparr>"

definition ex_table :: "(nat, nat) KeplerTable" where
  "ex_table = \<lparr>id_tbl = ''d'', type_tbl = [], label = ''new dataset'', color = [1, 2, 3],
     fields_tbl = [ex_field], dataContainer = 0, allIndexes = [0, 1, 2], filteredIndex = [0, 1, 2],
     filteredIdxCPU = None, filteredIndexForDomain = [0, 1, 2], fieldPairs = [], gpuFilter = 0,
     filterRecord = None, filterRecordCPU = None, changedFilters = None, sortColumn = None,
     sortOrder = None, pinnedColumns = None, supportedFilterTypes = None,
     disableDataOperation = False\<rparr>"

definition ex_world :: "(nat, nat, nat) world" where
  "ex_world = \<lparr>heap = (\<lambda>r. ex_table), next_ref = 1, containers = (\<lambda>r. ex_container),
     next_dc = 1, console = [], scans = 0\<rparr>"

definition ex_helpers :: "(nat, nat, nat, unit) helpers" where
  "ex_helpers = \<lparr>
     createDataContainer = (\<lambda>data flds form. \<lparr>numRows = (case data of None \<Rightarrow> 0 | Some rows \<Rightarrow> length rows),
        valueAt = (\<lambda>r c. case data of None \<Rightarrow> Undefined | Some rows \<Rightarrow>
           if r < length rows \<and> c < length (rows ! r) then rows ! r ! c else Undefined)\<rparr>),
     getFilterRecord = (\<lambda>d fs opt.
        \<lparr>dynamicDomain = (if ignoreDomain opt = Some True then [] else filter (\<lambda>f. \<not> fixedDomain f) fs),
         cpu = (if cpuOnly opt = Some True then fs else filter (\<lambda>f. \<not> gpu f) fs),
         gpu_bucket = (if cpuOnly opt = Some True then [] else filter gpu fs)\<rparr>),
     getGpuFilterProps = (\<lambda>fs d flds old. length (filter gpu fs)),
     getDatasetFieldIndexForFilter = (\<lambda>d f. 0),
     getFilterFunction = (\<lambda>fld d f ls dc i.
        case valueAt dc i 0 of Val x \<Rightarrow> value_flt f \<le> x | Null \<Rightarrow> False | Undefined \<Rightarrow> False)\<rparr>"

text \<open>
  An \<open>update\<close> method of the container that appends the new rows, and two new rows.
\<close>

definition ex_append :: "nat cell list list option \<Rightarrow> nat DataContainer \<Rightarrow> nat DataContainer" where
  "ex_append newData dc =
     (let rows = (case newData of None \<Rightarrow> [] | Some rs \<Rightarrow> rs)
      in \<lparr>numRows = numRows dc + length rows,
          valueAt = (\<lambda>r c. if r < numRows dc then valueAt dc r c
                           else if r - numRows dc < length rows \<and> c < length (rows ! (r - numRows dc))
                                then rows ! (r - numRows dc) ! c
                                else Undefined)\<rparr>)"

definition ex_new_rows :: "nat ProtoData" where
  "ex_new_rows = \<lparr>pfields = [], prows = Some [[Val 7], [Val 8]], pcols = None\<rparr>"

text \<open>
  Scale constants and domain calculators for the examples: each calculator answers with a
  domain of its own, so that the branch taken shows in the result.
\<close>

definition ex_scale_types :: "string \<rightharpoonup> string" where
  "ex_scale_types = [''ordinal'' \<mapsto> ''ordinal'', ''quantile'' \<mapsto> ''quantile'',
     ''quantize'' \<mapsto> ''quantize'', ''linear'' \<mapsto> ''linear'', ''log'' \<mapsto> ''log'']"

definition ex_calculators :: "(nat, nat list) domainCalculators" where
  "ex_calculators = \<lparr>getOrdinalDomain = (\<lambda>dc fld. [0]),
     getQuantileDomain = (\<lambda>idx dc fld. [1]),
     getLogDomain = (\<lambda>idx dc fld. [2]),
     getLinearDomain = (\<lambda>idx dc fld. [3])\<rparr>"

definition ex_scale_func :: "string \<rightharpoonup> nat" where
  "ex_scale_func = [''quantize'' \<mapsto> 1, ''linear'' \<mapsto> 2]"

text \<open>The field objects of the layer tests, \<open>{name, fieldIdx}\<close>, as \<open>importData\<close> completes them.\<close>

definition test_field :: "string \<Rightarrow> nat \<Rightarrow> Field" where
  "test_field n i =
     importField \<lparr>pname = n, ptype = None, pformat = None, pdisplayName = None,
                   panalyzerType = None\<rparr> i"


section \<open>Properties\<close>

subsection \<open>Assignments to a table object\<close>

lemma heap_assign_same: "heap (assign this f w) this = f (heap w this)"
  by (simp add: assign_def)

lemma heap_assign_other: "r \<noteq> this \<Longrightarrow> heap (assign this f w) r = heap w r"
  by (simp add: assign_def)

lemma scans_assign: "scans (assign this f w) = scans w"
  by (simp add: assign_def)

lemma next_ref_assign: "next_ref (assign this f w) = next_ref w"
  by (simp add: assign_def)

lemma console_assign: "console (assign this f w) = console w"
  by (simp add: assign_def)

lemma containers_assign: "containers (assign this f w) = containers w"
  by (simp add: assign_def)

lemma next_dc_assign: "next_dc (assign this f w) = next_dc w"
  by (simp add: assign_def)

lemmas assign_simps = heap_assign_same heap_assign_other scans_assign next_ref_assign console_assign
  containers_assign next_dc_assign

lemmas ex_defs = ex_filter_def ex_gpu_filter_def ex_container_def ex_field_def ex_table_def
  ex_world_def ex_helpers_def

subsection \<open>What \<open>filterTable\<close> leaves alone\<close>

lemma filterTable_fst: "fst (filterTable H filters layers opt this w) = this"
  by (simp add: filterTable_def Let_def split: prod.splits)

lemma filterTable_other:
  "r \<noteq> this \<Longrightarrow> heap (snd (filterTable H filters layers opt this w)) r = heap w r"
  by (simp add: filterTable_def Let_def assign_simps split: prod.splits if_splits)

lemma filterTable_next_ref: "next_ref (snd (filterTable H filters layers opt this w)) = next_ref w"
  by (simp add: filterTable_def Let_def assign_simps split: prod.splits if_splits)

lemma filterTable_containers: "containers (snd (filterTable H filters layers opt this w)) = containers w"
  by (simp add: filterTable_def Let_def assign_simps split: prod.splits if_splits)

lemma filterTable_id:
  "id_tbl (heap (snd (filterTable H filters layers opt this w)) this) = id_tbl (heap w this)"
  by (simp add: filterTable_def Let_def assign_simps split: prod.splits if_splits)

lemma filterTable_allIndexes:
  "allIndexes (heap (snd (filterTable H filters layers opt this w)) this) = allIndexes (heap w this)"
  by (simp add: filterTable_def Let_def assign_simps split: prod.splits if_splits)

lemma filterTable_dataContainer:
  "dataContainer (heap (snd (filterTable H filters layers opt this w)) this) = dataContainer (heap w this)"
  by (simp add: filterTable_def Let_def assign_simps split: prod.splits if_splits)

subsection \<open>What \<open>filterTable\<close> writes\<close>

lemma diffFilters_same:
  "diffFilters r (Some r) = \<lparr>dynamicDomain_changed = False, cpu_changed = False, gpu_changed = False\<rparr>"
  by (simp add: diffFilters_def)

lemma filterTable_filterRecord:
  "filterRecord (heap (snd (filterTable H filters layers opt this w)) this) =
     Some (getFilterRecord H (id_tbl (heap w this)) filters
             (case opt of None \<Rightarrow> empty_opt | Some opt' \<Rightarrow> opt'))"
  by (simp add: filterTable_def Let_def assign_simps split: prod.splits if_splits)

lemma filterTable_changedFilters:
  "changedFilters (heap (snd (filterTable H filters layers opt this w)) this) =
     Some (diffFilters
       (getFilterRecord H (id_tbl (heap w this)) filters
          (case opt of None \<Rightarrow> empty_opt | Some opt' \<Rightarrow> opt'))
       (filterRecord (heap w this)))"
  by (simp add: filterTable_def Let_def assign_simps split: prod.splits if_splits)

lemma filterTable_empty_views:
  "filteredIndex (heap (snd (filterTable H [] layers opt this w)) this) = allIndexes (heap w this)"
  "filteredIndexForDomain (heap (snd (filterTable H [] layers opt this w)) this) = allIndexes (heap w this)"
  "scans (snd (filterTable H [] layers opt this w)) = scans w"
  by (simp_all add: filterTable_def Let_def assign_simps)

lemma filterTable_no_scan:
  assumes "filters \<noteq> []"
    and "\<not> dynamicDomain_changed (diffFilters
           (getFilterRecord H (id_tbl (heap w this)) filters
              (case opt of None \<Rightarrow> empty_opt | Some opt' \<Rightarrow> opt'))
           (filterRecord (heap w this)))"
    and "\<not> cpu_changed (diffFilters
           (getFilterRecord H (id_tbl (heap w this)) filters
              (case opt of None \<Rightarrow> empty_opt | Some opt' \<Rightarrow> opt'))
           (filterRecord (heap w this)))"
  shows "filteredIndex (heap (snd (filterTable H filters layers opt this w)) this) = filteredIndex (heap w this)"
    and "filteredIndexForDomain (heap (snd (filterTable H filters layers opt this w)) this)
           = filteredIndexForDomain (heap w this)"
    and "scans (snd (filterTable H filters layers opt this w)) = scans w"
  using assms by (simp_all add: filterTable_def Let_def assign_simps)

lemma scan_view:
  "set (filter P (getPlainIndex dc)) \<subseteq> set (getPlainIndex dc) \<and>
   sorted_wrt (<) (filter P (getPlainIndex dc)) \<and> distinct (filter P (getPlainIndex dc))"
  by (auto simp: getPlainIndex_def sorted_wrt_filter)

lemma filterTable_views:
  assumes "filters \<noteq> []"
  shows "filteredIndex (heap (snd (filterTable H filters layers opt this w)) this) = filteredIndex (heap w this) \<or>
         (\<exists>P. filteredIndex (heap (snd (filterTable H filters layers opt this w)) this) =
            filter P (getPlainIndex (containers w (dataContainer (heap w this)))))"
    and "filteredIndexForDomain (heap (snd (filterTable H filters layers opt this w)) this)
           = filteredIndexForDomain (heap w this) \<or>
         (\<exists>P. filteredIndexForDomain (heap (snd (filterTable H filters layers opt this w)) this) =
            filter P (getPlainIndex (containers w (dataContainer (heap w this)))))"
  using assms
  by (auto simp: filterTable_def Let_def assign_simps filterDataByFilterTypes_def
      split: prod.splits if_splits)

subsection \<open>Ingestion establishes the invariant\<close>

lemma plain_view: "index_view (getPlainIndex dc) (getPlainIndex dc)"
  by (simp add: index_view_def getPlainIndex_def)

lemma importData_table_inv: "table_inv (importData H data this w) this"
  by (simp add: table_inv_def plain_view importData_def Let_def assign_def)

lemma update_table_inv: "table_inv (snd (update_table dc_update data this w)) this"
  by (simp add: table_inv_def plain_view update_table_def Let_def assign_def
      split: option.splits)

lemma filterTable_empty_table_inv:
  assumes "allIndexes (heap w this) = getPlainIndex (containers w (dataContainer (heap w this)))"
  shows "table_inv (snd (filterTable H [] layers opt this w)) this"
  using assms
  by (simp add: table_inv_def plain_view filterTable_empty_views filterTable_allIndexes
      filterTable_containers filterTable_dataContainer)

subsection \<open>The filter orchestrator\<close>

lemma filterTable_recomputed:
  assumes "filters \<noteq> []"
  shows "filteredIndex (heap (snd (filterTable H filters layers opt this w)) this) =
      (if cpu_changed (diffFilters
            (getFilterRecord H (id_tbl (heap w this)) filters
               (case opt of None \<Rightarrow> empty_opt | Some opt' \<Rightarrow> opt'))
            (filterRecord (heap w this)))
       then filter (\<lambda>i. list_all (filterFuncCaller
                (buildFilterFuncs H (id_tbl (heap w this)) (fields_tbl (heap w this)) layers
                   (containers w (dataContainer (heap w this))) filters) i)
              (cpu (getFilterRecord H (id_tbl (heap w this)) filters
                      (case opt of None \<Rightarrow> empty_opt | Some opt' \<Rightarrow> opt'))))
              (getPlainIndex (containers w (dataContainer (heap w this))))
       else filteredIndex (heap w this))"
    and "filteredIndexForDomain (heap (snd (filterTable H filters layers opt this w)) this) =
      (if dynamicDomain_changed (diffFilters
            (getFilterRecord H (id_tbl (heap w this)) filters
               (case opt of None \<Rightarrow> empty_opt | Some opt' \<Rightarrow> opt'))
            (filterRecord (heap w this)))
       then filter (\<lambda>i. list_all (filterFuncCaller
                (buildFilterFuncs H (id_tbl (heap w this)) (fields_tbl (heap w this)) layers
                   (containers w (dataContainer (heap w this))) filters) i)
              (dynamicDomain (getFilterRecord H (id_tbl (heap w this)) filters
                      (case opt of None \<Rightarrow> empty_opt | Some opt' \<Rightarrow> opt'))))
              (getPlainIndex (containers w (dataContainer (heap w this))))
       else filteredIndexForDomain (heap w this))"
  using assms
  by (simp_all add: filterTable_def Let_def assign_simps filterDataByFilterTypes_def)

text \<open>
  C1, as the code has it. Let \<open>allIndexes\<close> of the table be the plain index of its
  data container (the state in which \<open>importData\<close> and \<open>update\<close> leave their
  receiver) and let the filter list be non-empty. After \<open>filterTable\<close>,
  \<open>allIndexes\<close> is unchanged; a view whose bucket is flagged in \<open>changedFilters\<close>
  (\<open>cpu\<close> for \<open>filteredIndex\<close>, \<open>dynamicDomain\<close> for
  \<open>filteredIndexForDomain\<close>) is recomputed and is a subset of \<open>allIndexes\<close>, in
  strictly ascending order and without duplicates, whatever it was before; a view whose
  bucket is not flagged keeps its value. So if both views were such subsets before the
  call, they are after it, and the invariant of the data model holds again.
\<close>

theorem filterTable_index_views:
  assumes plain: "allIndexes (heap w this) = getPlainIndex (containers w (dataContainer (heap w this)))"
    and ne: "filters \<noteq> []"
  shows "(let changed = diffFilters
                (getFilterRecord H (id_tbl (heap w this)) filters
                   (case opt of None \<Rightarrow> empty_opt | Some opt' \<Rightarrow> opt'))
                (filterRecord (heap w this));
              t = heap w this;
              t' = heap (snd (filterTable H filters layers opt this w)) this
          in allIndexes t' = allIndexes t \<and>
             (if cpu_changed changed
              then set (filteredIndex t') \<subseteq> set (allIndexes t') \<and>
                   sorted_wrt (<) (filteredIndex t') \<and> distinct (filteredIndex t')
              else filteredIndex t' = filteredIndex t) \<and>
             (if dynamicDomain_changed changed
              then set (filteredIndexForDomain t') \<subseteq> set (allIndexes t') \<and>
                   sorted_wrt (<) (filteredIndexForDomain t') \<and> distinct (filteredIndexForDomain t')
              else filteredIndexForDomain t' = filteredIndexForDomain t) \<and>
             (index_view (allIndexes t) (filteredIndex t) \<and>
              index_view (allIndexes t) (filteredIndexForDomain t) \<longrightarrow>
                set (filteredIndex t') \<subseteq> set (allIndexes t') \<and>
                sorted_wrt (<) (filteredIndex t') \<and> distinct (filteredIndex t') \<and>
                set (filteredIndexForDomain t') \<subseteq> set (allIndexes t') \<and>
                sorted_wrt (<) (filteredIndexForDomain t') \<and> distinct (filteredIndexForDomain t') \<and>
                table_inv (snd (filterTable H filters layers opt this w)) this))"
proof -
  let ?changed = "diffFilters
      (getFilterRecord H (id_tbl (heap w this)) filters
         (case opt of None \<Rightarrow> empty_opt | Some opt' \<Rightarrow> opt'))
      (filterRecord (heap w this))"
  let ?w' = "snd (filterTable H filters layers opt this w)"
  let ?t = "heap w this"
  let ?t' = "heap ?w' this"
  let ?ok = "\<lambda>xs. set xs \<subseteq> set (allIndexes ?t') \<and> sorted_wrt (<) xs \<and> distinct xs"
  have a: "allIndexes ?t' = allIndexes ?t"
    by (rule filterTable_allIndexes)
  have pl: "allIndexes ?t' = getPlainIndex (containers w (dataContainer ?t))"
    using a plain by simp
  have scanned: "?ok (filter P (getPlainIndex (containers w (dataContainer ?t))))" for P
    unfolding pl by (rule scan_view)
  have i1: "cpu_changed ?changed \<Longrightarrow> ?ok (filteredIndex ?t')"
    using filterTable_recomputed(1) [OF ne, of H layers opt this w] scanned by metis
  have i2: "\<not> cpu_changed ?changed \<Longrightarrow> filteredIndex ?t' = filteredIndex ?t"
    using filterTable_recomputed(1) [OF ne, of H layers opt this w] by metis
  have d1: "dynamicDomain_changed ?changed \<Longrightarrow> ?ok (filteredIndexForDomain ?t')"
    using filterTable_recomputed(2) [OF ne, of H layers opt this w] scanned by metis
  have d2: "\<not> dynamicDomain_changed ?changed \<Longrightarrow>
      filteredIndexForDomain ?t' = filteredIndexForDomain ?t"
    using filterTable_recomputed(2) [OF ne, of H layers opt this w] by metis
  have c2: "if cpu_changed ?changed then ?ok (filteredIndex ?t')
      else filteredIndex ?t' = filteredIndex ?t"
    using i1 i2 by (cases "cpu_changed ?changed") simp_all
  have c3: "if dynamicDomain_changed ?changed then ?ok (filteredIndexForDomain ?t')
      else filteredIndexForDomain ?t' = filteredIndexForDomain ?t"
    using d1 d2 by (cases "dynamicDomain_changed ?changed") simp_all
  have c4: "?ok (filteredIndex ?t') \<and> ?ok (filteredIndexForDomain ?t') \<and> table_inv ?w' this"
    if before: "index_view (allIndexes ?t) (filteredIndex ?t) \<and>
                index_view (allIndexes ?t) (filteredIndexForDomain ?t)"
  proof -
    have b1: "?ok (filteredIndex ?t)" and b2: "?ok (filteredIndexForDomain ?t)"
      using before unfolding index_view_def a by blast+
    have o1: "?ok (filteredIndex ?t')"
      using i1 i2 b1 by (cases "cpu_changed ?changed") simp_all
    have o2: "?ok (filteredIndexForDomain ?t')"
      using d1 d2 b2 by (cases "dynamicDomain_changed ?changed") simp_all
    have "table_inv ?w' this"
      unfolding table_inv_def index_view_def filterTable_containers filterTable_dataContainer
      using pl o1 o2 by blast
    then show ?thesis using o1 o2 by blast
  qed
  show ?thesis
    unfolding Let_def using a c2 c3 c4 by blast
qed

theorem filterTable_index_views_witness:
  "filteredIndex (heap (snd (filterTable ex_helpers [ex_filter] [] None 0 ex_world)) 0) = [0] \<and>
   filteredIndexForDomain (heap (snd (filterTable ex_helpers [ex_filter] [] None 0 ex_world)) 0) = [0] \<and>
   allIndexes (heap (snd (filterTable ex_helpers [ex_filter] [] None 0 ex_world)) 0) = [0, 1, 2] \<and>
   table_inv (snd (filterTable ex_helpers [ex_filter] [] None 0 ex_world)) 0"
proof -
  have plain: "allIndexes (heap ex_world 0) = getPlainIndex (containers ex_world (dataContainer (heap ex_world 0)))"
    by (simp add: getPlainIndex_def ex_world_def ex_table_def ex_container_def upt_rec)
  have ne: "[ex_filter] \<noteq> []" by simp
  have before: "index_view (allIndexes (heap ex_world 0)) (filteredIndex (heap ex_world 0)) \<and>
      index_view (allIndexes (heap ex_world 0)) (filteredIndexForDomain (heap ex_world 0))"
    by (simp add: index_view_def ex_world_def ex_table_def)
  have e1: "filteredIndex (heap (snd (filterTable ex_helpers [ex_filter] [] None 0 ex_world)) 0) = [0]"
    by code_simp
  have e2: "filteredIndexForDomain (heap (snd (filterTable ex_helpers [ex_filter] [] None 0 ex_world)) 0) = [0]"
    by code_simp
  have "allIndexes (heap (snd (filterTable ex_helpers [ex_filter] [] None 0 ex_world)) 0)
          = allIndexes (heap ex_world 0) \<and>
        table_inv (snd (filterTable ex_helpers [ex_filter] [] None 0 ex_world)) 0"
    using filterTable_index_views [OF plain ne, of ex_helpers None "[]"] before
    unfolding Let_def by blast
  then show ?thesis
    using e1 e2 by (simp add: ex_world_def ex_table_def)
qed

text \<open>
  The claim as stated fails at a table the operations produce. \<open>pinTableColumns\<close>
  makes a copy that shares the data container; \<open>update\<close> on the copy appends two rows
  to that container and recomputes \<open>allIndexes\<close> of the copy only; \<open>filterTable\<close>
  on the original then scans five rows and puts rows 3 and 4 into \<open>filteredIndex\<close>,
  which are not in the original's \<open>allIndexes\<close>.
\<close>

theorem filterTable_after_shared_update:
  "filteredIndex (heap (snd (filterTable ex_helpers [ex_filter] [] None 0
       (snd (update_table (Some ex_append) ex_new_rows 1
          (snd (pinTableColumns 0 ''lat'' ex_world)))))) 0) = [0, 3, 4] \<and>
   allIndexes (heap (snd (filterTable ex_helpers [ex_filter] [] None 0
       (snd (update_table (Some ex_append) ex_new_rows 1
          (snd (pinTableColumns 0 ''lat'' ex_world)))))) 0) = [0, 1, 2] \<and>
   \<not> set (filteredIndex (heap (snd (filterTable ex_helpers [ex_filter] [] None 0
       (snd (update_table (Some ex_append) ex_new_rows 1
          (snd (pinTableColumns 0 ''lat'' ex_world)))))) 0))
       \<subseteq> set (allIndexes (heap (snd (filterTable ex_helpers [ex_filter] [] None 0
       (snd (update_table (Some ex_append) ex_new_rows 1
          (snd (pinTableColumns 0 ''lat'' ex_world)))))) 0))"
proof -
  let ?w = "snd (filterTable ex_helpers [ex_filter] [] None 0
       (snd (update_table (Some ex_append) ex_new_rows 1
          (snd (pinTableColumns 0 ''lat'' ex_world)))))"
  have f: "filteredIndex (heap ?w 0) = [0, 3, 4]"
    by code_simp
  have a: "allIndexes (heap ?w 0) = [0, 1, 2]"
    by code_simp
  show ?thesis
    unfolding f a by simp
qed

text \<open>
  C2. Calling \<open>filterTable\<close> with an empty filter list sets both \<open>filteredIndex\<close> and
  \<open>filteredIndexForDomain\<close> of the receiver to exactly its \<open>allIndexes\<close> (which the
  call does not change), returns the receiver, and performs no row scan.
\<close>

theorem filterTable_empty_resets:
  "fst (filterTable H [] layers opt this w) = this \<and>
   filteredIndex (heap (snd (filterTable H [] layers opt this w)) this) = allIndexes (heap w this) \<and>
   filteredIndexForDomain (heap (snd (filterTable H [] layers opt this w)) this) = allIndexes (heap w this) \<and>
   allIndexes (heap (snd (filterTable H [] layers opt this w)) this) = allIndexes (heap w this) \<and>
   scans (snd (filterTable H [] layers opt this w)) = scans w"
  by (simp add: filterTable_def Let_def heap_assign_same scans_assign)

text \<open>
  C3. Calling \<open>filterTable\<close> a second time with the same filters, layers and options
  gives the same \<open>filteredIndex\<close> (and \<open>filteredIndexForDomain\<close>) as the first call,
  and the second call performs no row scan: no bucket of its \<open>changedFilters\<close> is
  flagged. In any call with a non-empty filter list in which neither the
  \<open>dynamicDomain\<close> nor the \<open>cpu\<close> bucket is flagged, no scan happens and both index
  views keep their previous values.
\<close>

theorem filterTable_idempotent:
  "(let w1 = snd (filterTable H filters layers opt this w);
        w2 = snd (filterTable H filters layers opt this w1)
    in filteredIndex (heap w2 this) = filteredIndex (heap w1 this) \<and>
       filteredIndexForDomain (heap w2 this) = filteredIndexForDomain (heap w1 this) \<and>
       scans w2 = scans w1 \<and>
       changedFilters (heap w2 this) =
         Some \<lparr>dynamicDomain_changed = False, cpu_changed = False, gpu_changed = False\<rparr>) \<and>
   (let changed = diffFilters
          (getFilterRecord H (id_tbl (heap w this)) filters
             (case opt of None \<Rightarrow> empty_opt | Some opt' \<Rightarrow> opt'))
          (filterRecord (heap w this));
        w' = snd (filterTable H filters layers opt this w)
    in filters \<noteq> [] \<and> \<not> dynamicDomain_changed changed \<and> \<not> cpu_changed changed \<longrightarrow>
         filteredIndex (heap w' this) = filteredIndex (heap w this) \<and>
         filteredIndexForDomain (heap w' this) = filteredIndexForDomain (heap w this) \<and>
         scans w' = scans w)"
proof (rule conjI)
  let ?w1 = "snd (filterTable H filters layers opt this w)"
  let ?w2 = "snd (filterTable H filters layers opt this ?w1)"
  let ?none = "\<lparr>dynamicDomain_changed = False, cpu_changed = False, gpu_changed = False\<rparr>"
  have rec: "filterRecord (heap ?w1 this) =
      Some (getFilterRecord H (id_tbl (heap ?w1 this)) filters
              (case opt of None \<Rightarrow> empty_opt | Some opt' \<Rightarrow> opt'))"
    by (simp add: filterTable_filterRecord filterTable_id)
  have ch: "changedFilters (heap ?w2 this) = Some ?none"
    by (simp add: filterTable_changedFilters rec diffFilters_same)
  have same: "filteredIndex (heap ?w2 this) = filteredIndex (heap ?w1 this) \<and>
      filteredIndexForDomain (heap ?w2 this) = filteredIndexForDomain (heap ?w1 this) \<and>
      scans ?w2 = scans ?w1"
  proof (cases "filters = []")
    case True
    show ?thesis
      unfolding True by (simp add: filterTable_empty_views filterTable_allIndexes)
  next
    case False
    have "\<not> dynamicDomain_changed (diffFilters
           (getFilterRecord H (id_tbl (heap ?w1 this)) filters
              (case opt of None \<Rightarrow> empty_opt | Some opt' \<Rightarrow> opt'))
           (filterRecord (heap ?w1 this)))"
         "\<not> cpu_changed (diffFilters
           (getFilterRecord H (id_tbl (heap ?w1 this)) filters
              (case opt of None \<Rightarrow> empty_opt | Some opt' \<Rightarrow> opt'))
           (filterRecord (heap ?w1 this)))"
      by (simp_all add: rec diffFilters_same)
    then show ?thesis
      using filterTable_no_scan [OF False, of H ?w1 this opt layers] by blast
  qed
  show "(let w1 = ?w1; w2 = snd (filterTable H filters layers opt this w1)
    in filteredIndex (heap w2 this) = filteredIndex (heap w1 this) \<and>
       filteredIndexForDomain (heap w2 this) = filteredIndexForDomain (heap w1 this) \<and>
       scans w2 = scans w1 \<and>
       changedFilters (heap w2 this) = Some ?none)"
    unfolding Let_def using same ch by blast
next
  show "(let changed = diffFilters
          (getFilterRecord H (id_tbl (heap w this)) filters
             (case opt of None \<Rightarrow> empty_opt | Some opt' \<Rightarrow> opt'))
          (filterRecord (heap w this));
        w' = snd (filterTable H filters layers opt this w)
    in filters \<noteq> [] \<and> \<not> dynamicDomain_changed changed \<and> \<not> cpu_changed changed \<longrightarrow>
         filteredIndex (heap w' this) = filteredIndex (heap w this) \<and>
         filteredIndexForDomain (heap w' this) = filteredIndexForDomain (heap w this) \<and>
         scans w' = scans w)"
    unfolding Let_def using filterTable_no_scan [of filters H w this opt layers] by blast
qed

theorem filterTable_idempotent_witness:
  "scans (snd (filterTable ex_helpers [ex_filter] [] None 0 ex_world)) = 1 \<and>
   scans (snd (filterTable ex_helpers [ex_filter] [] None 0
                 (snd (filterTable ex_helpers [ex_filter] [] None 0 ex_world)))) = 1 \<and>
   filteredIndex (heap (snd (filterTable ex_helpers [ex_filter] [] None 0
                 (snd (filterTable ex_helpers [ex_filter] [] None 0 ex_world)))) 0) = [0]"
proof -
  let ?w1 = "snd (filterTable ex_helpers [ex_filter] [] None 0 ex_world)"
  let ?changed = "diffFilters
      (getFilterRecord ex_helpers (id_tbl (heap ?w1 0)) [ex_filter]
         (case None of None \<Rightarrow> empty_opt | Some opt' \<Rightarrow> opt'))
      (filterRecord (heap ?w1 0))"
  have s1: "scans ?w1 = 1" by code_simp
  have f1: "filteredIndex (heap ?w1 0) = [0]" by code_simp
  have h: "[ex_filter] \<noteq> [] \<and> \<not> dynamicDomain_changed ?changed \<and> \<not> cpu_changed ?changed"
    by code_simp
  have "filteredIndex (heap (snd (filterTable ex_helpers [ex_filter] [] None 0 ?w1)) 0)
          = filteredIndex (heap ?w1 0) \<and>
        scans (snd (filterTable ex_helpers [ex_filter] [] None 0 ?w1)) = scans ?w1"
    using filterTable_idempotent [of ex_helpers "[ex_filter]" "[]" None 0 ?w1] h
    unfolding Let_def by blast
  then show ?thesis using s1 f1 by simp
qed

subsection \<open>The CPU shadow filter\<close>

text \<open>
  C4. Let at least one filter have \<open>gpu\<close> set and let the receiver be an allocated
  table. Then \<open>filterTableCPU\<close> returns the receiver and changes of it only
  \<open>filteredIdxCPU\<close> and \<open>filterRecordCPU\<close>; in particular \<open>filteredIndex\<close> and
  \<open>filterRecord\<close> are unchanged. The all-CPU filtering ran on a new object, which
  refers to the same data container; the two properties are read from that copy, and
  no container was changed.
\<close>

theorem filterTableCPU_copy_isolation:
  assumes gpu: "\<exists>f \<in> set filters. gpu f" and live: "this < next_ref w"
  shows "(let w' = snd (filterTableCPU H filters layers this w);
              copied = next_ref w
          in fst (filterTableCPU H filters layers this w) = this \<and>
             filteredIndex (heap w' this) = filteredIndex (heap w this) \<and>
             filterRecord (heap w' this) = filterRecord (heap w this) \<and>
             heap w' this = (heap w this)\<lparr>filteredIdxCPU := filteredIdxCPU (heap w' this),
                                           filterRecordCPU := filterRecordCPU (heap w' this)\<rparr> \<and>
             filteredIdxCPU (heap w' this) = Some (filteredIndex (heap w' copied)) \<and>
             filterRecordCPU (heap w' this) = filterRecord (heap w' copied) \<and>
             dataContainer (heap w' copied) = dataContainer (heap w this) \<and>
             containers w' = containers w)"
proof -
  have ne: "filters \<noteq> []" using gpu by auto
  obtain g where fnd: "find gpu filters = Some g"
    using gpu by (cases "find gpu filters") (auto simp: find_None_iff)
  have neq: "next_ref w \<noteq> this" "this \<noteq> next_ref w" using live by simp_all
  show ?thesis
    using ne fnd neq
    by (simp add: filterTableCPU_def Let_def copyTable_def case_prod_unfold
        assign_simps filterTable_fst filterTable_other filterTable_containers
        filterTable_dataContainer)
qed

theorem filterTableCPU_copy_isolation_witness:
  "filteredIndex (heap (snd (filterTableCPU ex_helpers [ex_filter, ex_gpu_filter] [] 0 ex_world)) 0)
     = [0, 1, 2] \<and>
   filterRecord (heap (snd (filterTableCPU ex_helpers [ex_filter, ex_gpu_filter] [] 0 ex_world)) 0)
     = None \<and>
   filteredIdxCPU (heap (snd (filterTableCPU ex_helpers [ex_filter, ex_gpu_filter] [] 0 ex_world)) 0)
     = Some [0]"
proof -
  have g: "\<exists>f \<in> set [ex_filter, ex_gpu_filter]. gpu f" by (simp add: ex_gpu_filter_def)
  have l: "(0::nat) < next_ref ex_world" by (simp add: ex_world_def)
  have c: "filteredIdxCPU (heap (snd (filterTableCPU ex_helpers [ex_filter, ex_gpu_filter] [] 0 ex_world)) 0)
      = Some [0]"
    by code_simp
  have "filteredIndex (heap (snd (filterTableCPU ex_helpers [ex_filter, ex_gpu_filter] [] 0 ex_world)) 0)
          = filteredIndex (heap ex_world 0) \<and>
        filterRecord (heap (snd (filterTableCPU ex_helpers [ex_filter, ex_gpu_filter] [] 0 ex_world)) 0)
          = filterRecord (heap ex_world 0)"
    using filterTableCPU_copy_isolation [OF g l, of ex_helpers "[]"]
    unfolding Let_def by blast
  then show ?thesis
    using c by (simp add: ex_world_def ex_table_def)
qed

text \<open>
  C5. \<open>filterTableCPU\<close> with an empty filter list sets \<open>filteredIdxCPU\<close> to
  \<open>allIndexes\<close>; with a non-empty filter list in which no filter has \<open>gpu\<close> set it
  sets \<open>filteredIdxCPU\<close> to the table's current \<open>filteredIndex\<close>.
\<close>

theorem filterTableCPU_without_gpu:
  "filteredIdxCPU (heap (snd (filterTableCPU H [] layers this w)) this)
     = Some (allIndexes (heap w this)) \<and>
   (filters \<noteq> [] \<and> (\<forall>f \<in> set filters. \<not> gpu f) \<longrightarrow>
      filteredIdxCPU (heap (snd (filterTableCPU H filters layers this w)) this)
        = Some (filteredIndex (heap w this)))"
  by (simp add: filterTableCPU_def Let_def assign_simps find_None_iff)

theorem filterTableCPU_without_gpu_witness:
  "filteredIdxCPU (heap (snd (filterTableCPU ex_helpers [ex_filter] [] 0 ex_world)) 0) = Some [0, 1, 2]"
proof -
  have h: "[ex_filter] \<noteq> [] \<and> (\<forall>f \<in> set [ex_filter]. \<not> gpu f)"
    by (simp add: ex_filter_def)
  have "filteredIdxCPU (heap (snd (filterTableCPU ex_helpers [ex_filter] [] 0 ex_world)) 0)
          = Some (filteredIndex (heap ex_world 0))"
    using filterTableCPU_without_gpu [of ex_helpers "[]" 0 ex_world "[ex_filter]"] h by blast
  then show ?thesis by (simp add: ex_world_def ex_table_def)
qed

subsection \<open>Ingestion\<close>

text \<open>
  C10. \<open>update\<close> returns the receiver with \<open>allIndexes\<close> recomputed as the plain
  index \<open>[0 .. numRows - 1]\<close> of its data container after the container's own optional
  \<open>update\<close> took the new data, and with both \<open>filteredIndex\<close> and
  \<open>filteredIndexForDomain\<close> reset to that \<open>allIndexes\<close>; the filter classification
  (\<open>filterRecord\<close>, \<open>filterRecordCPU\<close>, \<open>changedFilters\<close>), \<open>gpuFilter\<close> and
  \<open>filteredIdxCPU\<close> are untouched.
\<close>

theorem update_resets:
  "fst (update_table dc_update data this w) = this \<and>
   (let w' = snd (update_table dc_update data this w);
        t' = heap w' this
    in allIndexes t' = [0..<numRows (containers w' (dataContainer t'))] \<and>
       filteredIndex t' = allIndexes t' \<and>
       filteredIndexForDomain t' = allIndexes t' \<and>
       dataContainer t' = dataContainer (heap w this) \<and>
       containers w' (dataContainer t') =
         (case dc_update of
            None \<Rightarrow> containers w (dataContainer t')
          | Some u \<Rightarrow> u (case pcols data of Some cols \<Rightarrow> Some cols | None \<Rightarrow> prows data)
                        (containers w (dataContainer t'))) \<and>
       filterRecord t' = filterRecord (heap w this) \<and>
       filterRecordCPU t' = filterRecordCPU (heap w this) \<and>
       filteredIdxCPU t' = filteredIdxCPU (heap w this) \<and>
       gpuFilter t' = gpuFilter (heap w this) \<and>
       changedFilters t' = changedFilters (heap w this))"
  by (simp add: update_table_def Let_def assign_simps getPlainIndex_def split: option.splits)

subsection \<open>Scale domains\<close>

text \<open>
  C6, as the code has it. When the requested scale type is not a key of \<open>SCALE_TYPES\<close>
  with a truthy value, \<open>getColumnLayerDomain\<close> writes an error to the console and
  returns \<open>null\<close>: there is no fallback. It is \<open>getScaleFunctor\<close> that, for a scale
  type missing from \<open>SCALE_FUNC\<close>, writes a warning and falls back to
  \<open>SCALE_FUNC.quantize\<close>.
\<close>

theorem unsupported_scale_type:
  "(\<not> truthy (SCALE_TYPES scaleType) \<longrightarrow>
      getColumnLayerDomain C SCALE_TYPES field scaleType this w =
        (None, w\<lparr>console := console w @
                    [Error (''scale type '' @ scaleType @ '' not supported'')]\<rparr>)) \<and>
   (SCALE_FUNC scaleType = None \<longrightarrow>
      getScaleFunctor SCALE_FUNC scaleType w =
        (SCALE_FUNC ''quantize'',
         w\<lparr>console := console w @ [Warn (''Scale '' @ scaleType @ '' is not supported'')]\<rparr>))"
  by (simp add: getColumnLayerDomain_def getScaleFunctor_def Let_def)

theorem unsupported_scale_type_witness:
  "getColumnLayerDomain ex_calculators ex_scale_types ex_field ''dummy'' 0 ex_world =
     (None, ex_world\<lparr>console := [Error ''scale type dummy not supported'']\<rparr>) \<and>
   getScaleFunctor ex_scale_func ''dummy'' ex_world =
     (Some 1, ex_world\<lparr>console := [Warn ''Scale dummy is not supported'']\<rparr>)"
proof -
  have h1: "\<not> truthy (ex_scale_types ''dummy'')"
    by (simp add: truthy_def ex_scale_types_def)
  have h2: "ex_scale_func ''dummy'' = None"
    by (simp add: ex_scale_func_def)
  have q: "ex_scale_func ''quantize'' = Some 1"
    by (simp add: ex_scale_func_def)
  have c: "console ex_world = []"
    by (simp add: ex_world_def)
  show ?thesis
    using unsupported_scale_type [of ex_scale_types "''dummy''" ex_calculators ex_field 0 ex_world
        ex_scale_func] h1 h2
    by (simp add: q c)
qed

text \<open>
  The claim as stated fails: for the unsupported scale type \<open>dummy\<close> the column layer
  domain is \<open>null\<close>, not the domain the \<open>quantize\<close> scale gets, and the console
  entry is an error, not a warning.
\<close>

theorem column_layer_domain_no_fallback:
  "fst (getColumnLayerDomain ex_calculators ex_scale_types ex_field ''dummy'' 0 ex_world) = None \<and>
   fst (getColumnLayerDomain ex_calculators ex_scale_types ex_field ''quantize'' 0 ex_world) = Some [3] \<and>
   console (snd (getColumnLayerDomain ex_calculators ex_scale_types ex_field ''dummy'' 0 ex_world))
     = [Error ''scale type dummy not supported'']"
  by (simp add: getColumnLayerDomain_def Let_def truthy_def ex_scale_types_def ex_calculators_def
      ex_world_def)

subsection \<open>Field-pair inference\<close>

lemma findPointFieldPairs_names:
  "map name flds = map name flds' \<Longrightarrow> findPointFieldPairs flds = findPointFieldPairs flds'"
  by (simp add: findPointFieldPairs_def)

lemma name_test_field: "name (test_field n i) = n"
  by (simp add: test_field_def importField_def)

lemma pairs_one: "findPointFieldPairs [test_field ''one_lat'' 0, test_field ''one_lng'' 1] =
    [\<lparr>defaultName = ''one'',
      pair = \<lparr>lat = \<lparr>fieldIdx_pair = 0, value_pair = ''one_lat''\<rparr>,
              lng = \<lparr>fieldIdx_pair = 1, value_pair = ''one_lng''\<rparr>,
              altitude = None\<rparr>,
      suffix = (''lat'', ''lng'')\<rparr>]"
  by code_simp

lemma pairs_point: "findPointFieldPairs [test_field ''lat'' 0, test_field ''lon'' 1] =
    [\<lparr>defaultName = ''point'',
      pair = \<lparr>lat = \<lparr>fieldIdx_pair = 0, value_pair = ''lat''\<rparr>,
              lng = \<lparr>fieldIdx_pair = 1, value_pair = ''lon''\<rparr>,
              altitude = None\<rparr>,
      suffix = (''lat'', ''lon'')\<rparr>]"
  by code_simp

lemma pairs_none: "findPointFieldPairs [test_field ''one_late'' 0, test_field ''one_lng'' 1] = []"
  by code_simp

text \<open>
  C7. For fields named \<open>one_lat\<close>, \<open>one_lng\<close>, \<open>findPointFieldPairs\<close> returns exactly
  one pair, with default name \<open>one\<close>, latitude field 0 and longitude field 1; for
  \<open>lat\<close>, \<open>lon\<close> exactly one pair with default name \<open>point\<close>; for \<open>one_late\<close>,
  \<open>one_lng\<close> no pair.
\<close>

theorem findPointFieldPairs_examples:
  "(map name flds = [''one_lat'', ''one_lng''] \<longrightarrow>
      findPointFieldPairs flds =
        [\<lparr>defaultName = ''one'',
          pair = \<lparr>lat = \<lparr>fieldIdx_pair = 0, value_pair = ''one_lat''\<rparr>,
                  lng = \<lparr>fieldIdx_pair = 1, value_pair = ''one_lng''\<rparr>,
                  altitude = None\<rparr>,
          suffix = (''lat'', ''lng'')\<rparr>]) \<and>
   (map name flds = [''lat'', ''lon''] \<longrightarrow>
      findPointFieldPairs flds =
        [\<lparr>defaultName = ''point'',
          pair = \<lparr>lat = \<lparr>fieldIdx_pair = 0, value_pair = ''lat''\<rparr>,
                  lng = \<lparr>fieldIdx_pair = 1, value_pair = ''lon''\<rparr>,
                  altitude = None\<rparr>,
          suffix = (''lat'', ''lon'')\<rparr>]) \<and>
   (map name flds = [''one_late'', ''one_lng''] \<longrightarrow> findPointFieldPairs flds = [])"
proof (intro conjI impI)
  assume "map name flds = [''one_lat'', ''one_lng'']"
  then have "map name flds = map name [test_field ''one_lat'' 0, test_field ''one_lng'' 1]"
    by (simp add: name_test_field)
  then show "findPointFieldPairs flds =
        [\<lparr>defaultName = ''one'',
          pair = \<lparr>lat = \<lparr>fieldIdx_pair = 0, value_pair = ''one_lat''\<rparr>,
                  lng = \<lparr>fieldIdx_pair = 1, value_pair = ''one_lng''\<rparr>,
                  altitude = None\<rparr>,
          suffix = (''lat'', ''lng'')\<rparr>]"
    using findPointFieldPairs_names pairs_one by metis
next
  assume "map name flds = [''lat'', ''lon'']"
  then have "map name flds = map name [test_field ''lat'' 0, test_field ''lon'' 1]"
    by (simp add: name_test_field)
  then show "findPointFieldPairs flds =
        [\<lparr>defaultName = ''point'',
          pair = \<lparr>lat = \<lparr>fieldIdx_pair = 0, value_pair = ''lat''\<rparr>,
                  lng = \<lparr>fieldIdx_pair = 1, value_pair = ''lon''\<rparr>,
                  altitude = None\<rparr>,
          suffix = (''lat'', ''lon'')\<rparr>]"
    using findPointFieldPairs_names pairs_point by metis
next
  assume "map name flds = [''one_late'', ''one_lng'']"
  then have "map name flds = map name [test_field ''one_late'' 0, test_field ''one_lng'' 1]"
    by (simp add: name_test_field)
  then show "findPointFieldPairs flds = []"
    using findPointFieldPairs_names pairs_none by metis
qed

theorem findPointFieldPairs_examples_witness:
  "map defaultName (findPointFieldPairs [ex_field\<lparr>name := ''one_lat''\<rparr>, ex_field\<lparr>name := ''one_lng''\<rparr>])
     = [''one''] \<and>
   map defaultName (findPointFieldPairs [ex_field\<lparr>name := ''lat''\<rparr>, ex_field\<lparr>name := ''lon''\<rparr>])
     = [''point''] \<and>
   findPointFieldPairs [ex_field\<lparr>name := ''one_late''\<rparr>, ex_field\<lparr>name := ''one_lng''\<rparr>] = []"
  using findPointFieldPairs_examples [of "[ex_field\<lparr>name := ''one_lat''\<rparr>, ex_field\<lparr>name := ''one_lng''\<rparr>]"]
    findPointFieldPairs_examples [of "[ex_field\<lparr>name := ''lat''\<rparr>, ex_field\<lparr>name := ''lon''\<rparr>]"]
    findPointFieldPairs_examples [of "[ex_field\<lparr>name := ''one_late''\<rparr>, ex_field\<lparr>name := ''one_lng''\<rparr>]"]
  by simp

subsection \<open>Sorting\<close>














subsection \<open>Pinning\<close>

lemma find_name:
  "(case find (\<lambda>fd. name fd = column) flds of None \<Rightarrow> column \<notin> name ` set flds
    | Some fld \<Rightarrow> name fld = column \<and> column \<in> name ` set flds)"
  by (induction flds) (auto split: option.splits)

lemma heap_copyTableAndUpdate1:
  "copyTableAndUpdate original [f] w =
     (next_ref w, w\<lparr>heap := (heap w)(next_ref w := f (heap w original)), next_ref := Suc (next_ref w)\<rparr>)"
  by (simp add: copyTableAndUpdate_def copyTable_def assign_def)

text \<open>
  C9. Let the dataset be an allocated table. If the column names a field,
  \<open>pinTableColumns\<close> returns a new table object whose \<open>pinnedColumns\<close> contains the
  column exactly if the original's did not, and that otherwise has the properties of the
  original; the original object is unchanged. If no field has that name the original is
  returned and no table is changed or created.
\<close>

theorem pinTableColumns_toggles:
  assumes live: "dataset < next_ref w"
  shows "(let r = fst (pinTableColumns dataset column w);
              w' = snd (pinTableColumns dataset column w);
              old = (case pinnedColumns (heap w dataset) of None \<Rightarrow> [] | Some pc \<Rightarrow> pc)
          in if column \<in> name ` set (fields_tbl (heap w dataset)) then
               r = next_ref w \<and> r \<noteq> dataset \<and>
               heap w' dataset = heap w dataset \<and>
               (\<exists>pc. pinnedColumns (heap w' r) = Some pc \<and> (column \<in> set pc \<longleftrightarrow> column \<notin> set old)) \<and>
               heap w' r = (heap w dataset)\<lparr>pinnedColumns := pinnedColumns (heap w' r)\<rparr> \<and>
               console w' = console w
             else
               r = dataset \<and> heap w' = heap w \<and> next_ref w' = next_ref w)"
proof (cases "find (\<lambda>fd. name fd = column) (fields_tbl (heap w dataset))")
  case None
  then have "column \<notin> name ` set (fields_tbl (heap w dataset))"
    using find_name [of column "fields_tbl (heap w dataset)"] by simp
  then show ?thesis
    using None by (simp add: pinTableColumns_def getColumnField_def assetField_def Let_def)
next
  case (Some fld)
  then have n: "name fld = column" and m: "column \<in> name ` set (fields_tbl (heap w dataset))"
    using find_name [of column "fields_tbl (heap w dataset)"] by simp_all
  have neq: "next_ref w \<noteq> dataset" "dataset \<noteq> next_ref w" using live by simp_all
  show ?thesis
    using Some n m neq
    by (auto simp: pinTableColumns_def getColumnField_def assetField_def Let_def
        heap_copyTableAndUpdate1 split: option.splits)
qed

theorem pinTableColumns_toggles_witness:
  "fst (pinTableColumns 0 ''lat'' ex_world) = 1 \<and>
   pinnedColumns (heap (snd (pinTableColumns 0 ''lat'' ex_world)) 1) = Some [''lat''] \<and>
   pinnedColumns (heap (snd (pinTableColumns 0 ''lat'' ex_world)) 0) = None \<and>
   pinnedColumns (heap (snd (pinTableColumns 1 ''lat'' (snd (pinTableColumns 0 ''lat'' ex_world)))) 2)
     = Some []"
proof -
  have live: "(0::nat) < next_ref ex_world"
    by (simp add: ex_world_def)
  have m: "''lat'' \<in> name ` set (fields_tbl (heap ex_world 0))"
    by (simp add: ex_world_def ex_table_def ex_field_def)
  have "heap (snd (pinTableColumns 0 ''lat'' ex_world)) 0 = heap ex_world 0"
    using pinTableColumns_toggles [OF live, of "''lat''"] m
    unfolding Let_def by (simp only: if_True)
  then have orig: "pinnedColumns (heap (snd (pinTableColumns 0 ''lat'' ex_world)) 0) = None"
    by (simp add: ex_world_def ex_table_def)
  have r: "fst (pinTableColumns 0 ''lat'' ex_world) = 1"
    by code_simp
  have p: "pinnedColumns (heap (snd (pinTableColumns 0 ''lat'' ex_world)) 1) = Some [''lat'']"
    by code_simp
  have u: "pinnedColumns (heap (snd (pinTableColumns 1 ''lat'' (snd (pinTableColumns 0 ''lat'' ex_world)))) 2)
      = Some []"
    by code_simp
  show ?thesis
    using orig r p u by simp
qed

subsection \<open>The invariant under the other operations\<close>

text \<open>
  \<open>filterTableCPU\<close>, \<open>sortDatasetByColumn\<close> and \<open>pinTableColumns\<close> assign none
  of the properties the invariant speaks of, so it holds of the receiver afterwards, and
  of the copy that \<open>pinTableColumns\<close> returns.
\<close>

lemma table_inv_frame:
  assumes "table_inv w r"
    and "allIndexes (heap w' r') = allIndexes (heap w r)"
    and "filteredIndex (heap w' r') = filteredIndex (heap w r)"
    and "filteredIndexForDomain (heap w' r') = filteredIndexForDomain (heap w r)"
    and "containers w' (dataContainer (heap w' r')) = containers w (dataContainer (heap w r))"
  shows "table_inv w' r'"
  using assms unfolding table_inv_def by metis

lemma filterTableCPU_table_inv:
  assumes inv: "table_inv w this" and live: "this < next_ref w"
  shows "table_inv (snd (filterTableCPU H filters layers this w)) this"
proof -
  have neq: "next_ref w \<noteq> this" "this \<noteq> next_ref w" using live by simp_all
  show ?thesis
    using inv
    by (rule table_inv_frame)
      (simp_all add: neq filterTableCPU_def Let_def copyTable_def case_prod_unfold
        assign_simps filterTable_fst filterTable_other filterTable_containers)
qed

lemma sortDatasetByColumn_table_inv:
  assumes inv: "table_inv w dataset"
  shows "table_inv (snd (sortDatasetByColumn dataset column mode w)) dataset"
  using inv
  by (rule table_inv_frame)
    (simp_all add: sortDatasetByColumn_def Let_def assign_def split: option.splits)

lemma pinTableColumns_table_inv:
  assumes inv: "table_inv w dataset" and live: "dataset < next_ref w"
  shows "table_inv (snd (pinTableColumns dataset column w)) dataset"
    and "table_inv (snd (pinTableColumns dataset column w)) (fst (pinTableColumns dataset column w))"
proof -
  have neq: "next_ref w \<noteq> dataset" "dataset \<noteq> next_ref w" using live by simp_all
  show "table_inv (snd (pinTableColumns dataset column w)) dataset"
    using inv
    by (rule table_inv_frame)
      (simp_all add: neq pinTableColumns_def getColumnField_def assetField_def Let_def
        heap_copyTableAndUpdate1 split: option.splits)
  show "table_inv (snd (pinTableColumns dataset column w)) (fst (pinTableColumns dataset column w))"
    using inv
    by (rule table_inv_frame)
      (simp_all add: neq pinTableColumns_def getColumnField_def assetField_def Let_def
        heap_copyTableAndUpdate1 split: option.splits)
qed

end
